theory Spec2Isabelle
  imports Main "HOL-Library.Word"
begin

unbundle bit_operations_syntax

section \<open>Bytes, errors and the outside world\<close>

text \<open>
  A \<open>Buffer\<close> is a list of bytes. The entry points take \<open>string | Buffer\<close> and start with
  \<open>Buffer.isBuffer(data) ? data : Buffer.from(data, 'utf8')\<close>; a string argument is
  represented here by its UTF-8 bytes, so that this normalisation is the identity.
\<close>

type_synonym byte = "8 word"

text \<open>
  The source throws plain \<open>new Error(message)\<close> values; they are \<open>Error message\<close>.
  What a backend client (the AWS SDK, the IPFS HTTP client) throws is a \<open>client_error\<close>
  with the \<open>name\<close> that \<open>S3Store.exists\<close> inspects, and reaches the caller as \<open>Native\<close>.
\<close>

datatype client_error = ClientError (name: string) (message: string)

datatype error = Error string | Native client_error

text \<open>The error kinds of the specification are these thrown values.\<close>

definition ConfigurationError :: error where
  "ConfigurationError = Error ''At least one store (S3 or IPFS) must be configured''"

definition AllBackendsFailedError :: error where
  "AllBackendsFailedError = Error ''All storage operations failed''"

definition NoSourceAvailableError :: error where
  "NoSourceAvailableError = Error ''No valid storage source provided or available''"

definition NotFoundError :: "string \<Rightarrow> error" where
  "NotFoundError key = Error (''Object not found: '' @ key)"

definition IntegrityError :: "string \<Rightarrow> error" where
  "IntegrityError key = Error (''Hash verification failed for object: '' @ key)"

text \<open>A JavaScript \<open>Date\<close>: its epoch milliseconds and its ISO-8601 rendering.\<close>

record Date =
  getTime :: int
  toISOString :: string

text \<open>The commands of the S3 client and the answer to a \<open>GetObjectCommand\<close>.\<close>

record ObjectCommand =
  Bucket :: string
  Key :: string

record PutObjectCommand = ObjectCommand +
  Body :: "byte list"
  ContentType :: string
  Metadata :: "string \<rightharpoonup> string"
  ObjectLockMode :: "string option"
  ObjectLockRetainUntilDate :: "int option"

record GetObjectOutput =
  Body :: "byte list option"
  Metadata :: "(string \<rightharpoonup> string) option"

text \<open>
  The world outside the program: the system clock (\<open>clock w n\<close> is what the \<open>n\<close>-th reading
  of the clock returns), the answers of the two remote services to each request, and the
  two client constructors of the SDKs. \<open>new S3Client({endpoint, region, credentials})\<close> is
  \<open>new_S3Client w endpoint region accessKeyId secretAccessKey\<close> and
  \<open>createIPFS({url, timeout})\<close> is \<open>createIPFS w url timeout\<close>; each answers with the error it
  throws, if it throws one.
\<close>

record world =
  clock :: "nat \<Rightarrow> Date"
  s3_put :: "PutObjectCommand \<Rightarrow> client_error option"
  s3_get :: "ObjectCommand \<Rightarrow> client_error + GetObjectOutput"
  s3_head :: "ObjectCommand \<Rightarrow> client_error option"
  ipfs_add :: "byte list \<Rightarrow> client_error + string"
  ipfs_cat :: "string \<Rightarrow> client_error + byte list list"
  ipfs_pin_ls :: "string \<Rightarrow> client_error + string list"
  new_S3Client :: "string \<Rightarrow> string \<Rightarrow> string \<Rightarrow> string \<Rightarrow> client_error option"
  createIPFS :: "string \<Rightarrow> nat \<Rightarrow> client_error option"

text \<open>
  The effects of a run: how often the clock has been read, the put commands sent to the
  object store and the payloads handed to the IPFS node, oldest first.
\<close>

record trace =
  ticks :: nat
  puts :: "PutObjectCommand list"
  adds :: "byte list list"

definition new_Date :: "world \<Rightarrow> trace \<Rightarrow> Date \<times> trace" where
  "new_Date w tr = (clock w (ticks tr), tr\<lparr>ticks := Suc (ticks tr)\<rparr>)"

text \<open>
  JavaScript truthiness of an optional string, as in \<open>if (source.s3Key && ...)\<close> and
  \<open>storedHash || ...\<close>: \<open>undefined\<close> and the empty string are falsy.
\<close>

definition truthy :: "string option \<Rightarrow> bool" where
  "truthy x = (case x of None \<Rightarrow> False | Some s \<Rightarrow> s \<noteq> [])"

text \<open>\<open>a || b\<close> on optional strings, with the right operand already a string.\<close>

definition or_else :: "string option \<Rightarrow> string \<Rightarrow> string" where
  "or_else x d = (case x of None \<Rightarrow> d | Some s \<Rightarrow> if s = [] then d else s)"

text \<open>\<open>Number.prototype.toString()\<close> on a non-negative integer.\<close>

function toString_nat :: "nat \<Rightarrow> string" where
  "toString_nat n =
     (if n < 10 then [''0123456789'' ! n]
      else toString_nat (n div 10) @ [''0123456789'' ! (n mod 10)])"
  by pat_completeness auto
termination
  by (relation "measure id") auto

declare toString_nat.simps [simp del]

text \<open>Settled promises, as \<open>Promise.allSettled\<close> reports them.\<close>

datatype 'a settlement = Fulfilled 'a | Rejected error

definition settle :: "error + 'a \<Rightarrow> 'a settlement" where
  "settle p = (case p of Inl e \<Rightarrow> Rejected e | Inr v \<Rightarrow> Fulfilled v)"

definition allSettled :: "(error + 'a) list \<Rightarrow> 'a settlement list" where
  "allSettled ps = map settle ps"

fun rejected :: "'a settlement \<Rightarrow> bool" where
  "rejected (Rejected _) = True"
| "rejected (Fulfilled _) = False"

text \<open>\<open>array.filter(Boolean)\<close> on an array of promises and \<open>undefined\<close>s.\<close>

fun filter_Boolean :: "'a option list \<Rightarrow> 'a list" where
  "filter_Boolean [] = []"
| "filter_Boolean (None # xs) = filter_Boolean xs"
| "filter_Boolean (Some x # xs) = x # filter_Boolean xs"

section \<open>hash.ts\<close>

subsection \<open>SHA-256\<close>

text \<open>
  \<open>crypto.createHash('sha256')\<close> is Node's SHA-256, a library outside this repository.
  It is written out here from FIPS 180-4: padding, the message schedule and the 64 rounds
  on 32-bit words. \<open>hash.update(input)\<close> on a string hashes its UTF-8 bytes.
\<close>

text \<open>The round constants, one row for every eight rounds.\<close>

definition K :: "32 word list" where
  "K = concat
     [[0x428a2f98, 0x71374491, 0xb5c0fbcf, 0xe9b5dba5, 0x3956c25b, 0x59f111f1, 0x923f82a4, 0xab1c5ed5],
      [0xd807aa98, 0x12835b01, 0x243185be, 0x550c7dc3, 0x72be5d74, 0x80deb1fe, 0x9bdc06a7, 0xc19bf174],
      [0xe49b69c1, 0xefbe4786, 0x0fc19dc6, 0x240ca1cc, 0x2de92c6f, 0x4a7484aa, 0x5cb0a9dc, 0x76f988da],
      [0x983e5152, 0xa831c66d, 0xb00327c8, 0xbf597fc7, 0xc6e00bf3, 0xd5a79147, 0x06ca6351, 0x14292967],
      [0x27b70a85, 0x2e1b2138, 0x4d2c6dfc, 0x53380d13, 0x650a7354, 0x766a0abb, 0x81c2c92e, 0x92722c85],
      [0xa2bfe8a1, 0xa81a664b, 0xc24b8b70, 0xc76c51a3, 0xd192e819, 0xd6990624, 0xf40e3585, 0x106aa070],
      [0x19a4c116, 0x1e376c08, 0x2748774c, 0x34b0bcb5, 0x391c0cb3, 0x4ed8aa4a, 0x5b9cca4f, 0x682e6ff3],
      [0x748f82ee, 0x78a5636f, 0x84c87814, 0x8cc70208, 0x90befffa, 0xa4506ceb, 0xbef9a3f7, 0xc67178f2]]"

definition H0 :: "32 word list" where
  "H0 = [0x6a09e667, 0xbb67ae85, 0x3c6ef372, 0xa54ff53a, 0x510e527f, 0x9b05688c, 0x1f83d9ab, 0x5be0cd19]"

definition rotr :: "nat \<Rightarrow> 32 word \<Rightarrow> 32 word" where
  "rotr n x = drop_bit n x OR push_bit (32 - n) x"

definition Ch :: "32 word \<Rightarrow> 32 word \<Rightarrow> 32 word \<Rightarrow> 32 word" where
  "Ch x y z = (x AND y) XOR (NOT x AND z)"

definition Maj :: "32 word \<Rightarrow> 32 word \<Rightarrow> 32 word \<Rightarrow> 32 word" where
  "Maj x y z = (x AND y) XOR (x AND z) XOR (y AND z)"

definition Sigma0 :: "32 word \<Rightarrow> 32 word" where
  "Sigma0 x = rotr 2 x XOR rotr 13 x XOR rotr 22 x"

definition Sigma1 :: "32 word \<Rightarrow> 32 word" where
  "Sigma1 x = rotr 6 x XOR rotr 11 x XOR rotr 25 x"

definition sigma0 :: "32 word \<Rightarrow> 32 word" where
  "sigma0 x = rotr 7 x XOR rotr 18 x XOR drop_bit 3 x"

definition sigma1 :: "32 word \<Rightarrow> 32 word" where
  "sigma1 x = rotr 17 x XOR rotr 19 x XOR drop_bit 10 x"

text \<open>
  Padding: the byte \<open>0x80\<close>, zero bytes up to 56 modulo 64, and the length of the message
  in bits as a big-endian 64-bit integer.
\<close>

definition pad :: "byte list \<Rightarrow> byte list" where
  "pad m =
     (let l = (of_nat (8 * length m) :: 64 word)
      in m @ [0x80] @ replicate ((119 - length m mod 64) mod 64) 0
           @ map (\<lambda>i. ucast (drop_bit (8 * (7 - i)) l)) [0..<8])"

definition blocks :: "byte list \<Rightarrow> byte list list" where
  "blocks p = map (\<lambda>i. take 64 (drop (64 * i) p)) [0..<length p div 64]"

definition be32 :: "byte list \<Rightarrow> 32 word" where
  "be32 bs = foldl (\<lambda>w b. push_bit 8 w OR ucast b) 0 (take 4 bs)"

definition block_words :: "byte list \<Rightarrow> 32 word list" where
  "block_words blk = map (\<lambda>i. be32 (drop (4 * i) blk)) [0..<16]"

text \<open>
  The message schedule, newest word first while it grows: when word \<open>t\<close> is added,
  \<open>ws ! 1\<close> is word \<open>t - 2\<close>, \<open>ws ! 6\<close> is word \<open>t - 7\<close>, \<open>ws ! 14\<close> is word \<open>t - 15\<close> and
  \<open>ws ! 15\<close> is word \<open>t - 16\<close>.
\<close>

fun extend :: "nat \<Rightarrow> 32 word list \<Rightarrow> 32 word list" where
  "extend 0 ws = ws"
| "extend (Suc n) ws =
     extend n ((sigma1 (ws ! 1) + ws ! 6 + sigma0 (ws ! 14) + ws ! 15) # ws)"

definition schedule :: "byte list \<Rightarrow> 32 word list" where
  "schedule blk = rev (extend 48 (rev (block_words blk)))"

fun sha_round :: "32 word list \<Rightarrow> 32 word \<times> 32 word \<Rightarrow> 32 word list" where
  "sha_round [a, b, c, d, e, f, g, h] (k, w) =
     (let t1 = h + Sigma1 e + Ch e f g + k + w;
          t2 = Sigma0 a + Maj a b c
      in [t1 + t2, a, b, c, d + t1, e, f, g])"
| "sha_round s _ = s"

definition compress :: "32 word list \<Rightarrow> byte list \<Rightarrow> 32 word list" where
  "compress hs blk = map2 (+) hs (foldl sha_round hs (zip K (schedule blk)))"

definition digest :: "byte list \<Rightarrow> 32 word list" where
  "digest m = foldl compress H0 (blocks (pad m))"

text \<open>\<open>digest('hex')\<close>: eight lowercase hexadecimal digits for each word of the state.\<close>

definition hexchar :: "nat \<Rightarrow> char" where
  "hexchar n = ''0123456789abcdef'' ! (n mod 16)"

definition hex32 :: "32 word \<Rightarrow> string" where
  "hex32 w = map (\<lambda>i. hexchar (unat (drop_bit (4 * (7 - i)) w AND 0xF))) [0..<8]"

definition digest_hex :: "byte list \<Rightarrow> string" where
  "digest_hex m = concat (map hex32 (digest m))"

subsection \<open>The exported functions\<close>

definition sha256 :: "byte list \<Rightarrow> string" where
  "sha256 input = ''0x'' @ digest_hex input"

definition verifyHash :: "byte list \<Rightarrow> string \<Rightarrow> bool" where
  "verifyHash data expectedHash = (let computedHash = sha256 data in computedHash = expectedHash)"

record IntegrityMetadata =
  hash :: string
  size_bytes :: nat
  timestamp :: string

definition generateIntegrityMetadata :: "world \<Rightarrow> trace \<Rightarrow> byte list \<Rightarrow> IntegrityMetadata \<times> trace" where
  "generateIntegrityMetadata w tr data =
     (let (now, tr1) = new_Date w tr
      in (\<lparr>hash = sha256 data, size_bytes = length data, timestamp = toISOString now\<rparr>, tr1))"

section \<open>types.ts\<close>

text \<open>
  \<open>StoreResult\<close> and \<open>EvidenceMetadata\<close> extend the three integrity fields; the field
  \<open>size\<close> is \<open>size_bytes\<close> here. An optional field is an \<open>option\<close>.
\<close>

record S3Config =
  endpoint :: string
  region :: string
  accessKeyId :: string
  secretAccessKey :: string
  bucket :: string
  objectLockEnabled :: "bool option"

record IPFSConfig =
  endpoint :: string
  timeout :: "nat option"

record EvidenceStoreConfig =
  s3 :: "S3Config option"
  ipfs :: "IPFSConfig option"

record StoreResult = IntegrityMetadata +
  s3Key :: "string option"
  ipfsHash :: "string option"

record EvidenceMetadata = StoreResult +
  verified :: bool

record RetrieveResult =
  data :: "byte list"
  metadata :: IntegrityMetadata

text \<open>The argument \<open>{ s3Key?: string; ipfsHash?: string }\<close> of the read operations.\<close>

record Source =
  src_s3Key :: "string option"
  src_ipfsHash :: "string option"

text \<open>The argument \<open>options?: { s3Key?: string }\<close> of \<open>store\<close>.\<close>

record StoreOptions =
  opt_s3Key :: "string option"

section \<open>s3-store.ts\<close>

text \<open>
  The \<open>client\<close> field of a store is its connection to the remote service; what the
  service answers is the \<open>world\<close>'s, so the stores keep their other fields only. The
  constructor builds the client first, and fails with what the client constructor throws.
\<close>

record S3Store =
  bucket :: string
  objectLockEnabled :: bool

definition S3Store_new :: "world \<Rightarrow> S3Config \<Rightarrow> error + S3Store" where
  "S3Store_new w config =
     (case new_S3Client w (S3Config.endpoint config) (region config)
             (accessKeyId config) (secretAccessKey config) of
        Some e \<Rightarrow> Inl (Native e)
      | None \<Rightarrow>
          Inr \<lparr>bucket = S3Config.bucket config,
               objectLockEnabled =
                 (case S3Config.objectLockEnabled config of None \<Rightarrow> False | Some b \<Rightarrow> b)\<rparr>)"

text \<open>The \<open>PutObjectCommand\<close> that \<open>S3Store.store\<close> builds, with the metadata it embeds.\<close>

definition S3Store_putCommand ::
  "world \<Rightarrow> trace \<Rightarrow> S3Store \<Rightarrow> byte list \<Rightarrow> string option \<Rightarrow> (PutObjectCommand \<times> IntegrityMetadata) \<times> trace" where
  "S3Store_putCommand w tr st buffer key =
     (let (metadata, tr1) = generateIntegrityMetadata w tr buffer;
          objectKey = (case key of Some k \<Rightarrow> k | None \<Rightarrow> ''evidence/'' @ drop 2 (hash metadata));
          (lock, tr2) =
            (if objectLockEnabled st
             then (let (now, tr') = new_Date w tr1
                   in (Some (getTime now + 365 * 24 * 60 * 60 * 1000), tr'))
             else (None, tr1))
      in ((\<lparr>Bucket = bucket st, Key = objectKey,
             PutObjectCommand.Body = buffer,
             ContentType = ''application/octet-stream'',
             PutObjectCommand.Metadata =
               [''content-hash'' \<mapsto> hash metadata,
                ''content-size'' \<mapsto> toString_nat (size_bytes metadata),
                ''upload-timestamp'' \<mapsto> timestamp metadata],
             ObjectLockMode = (if objectLockEnabled st then Some ''GOVERNANCE'' else None),
             ObjectLockRetainUntilDate = lock\<rparr>, metadata), tr2))"

definition S3Store_store ::
  "world \<Rightarrow> trace \<Rightarrow> S3Store \<Rightarrow> byte list \<Rightarrow> string option \<Rightarrow> (error + StoreResult) \<times> trace" where
  "S3Store_store w tr st buffer key =
     (let ((putCommand, metadata), tr1) = S3Store_putCommand w tr st buffer key;
          tr2 = tr1\<lparr>puts := puts tr1 @ [putCommand]\<rparr>
      in (case s3_put w putCommand of
            Some e \<Rightarrow> (Inl (Native e), tr2)
          | None \<Rightarrow>
              (Inr \<lparr>hash = hash metadata, size_bytes = size_bytes metadata,
                    timestamp = timestamp metadata,
                    s3Key = Some (Key putCommand), ipfsHash = None\<rparr>, tr2)))"

text \<open>\<open>response.Metadata?.[attribute]\<close>\<close>

definition metadata_attr :: "GetObjectOutput \<Rightarrow> string \<Rightarrow> string option" where
  "metadata_attr response attribute =
     (case Metadata response of None \<Rightarrow> None | Some m \<Rightarrow> m attribute)"

definition S3Store_retrieve ::
  "world \<Rightarrow> trace \<Rightarrow> S3Store \<Rightarrow> string \<Rightarrow> (error + RetrieveResult) \<times> trace" where
  "S3Store_retrieve w tr st key =
     (case s3_get w \<lparr>Bucket = bucket st, Key = key\<rparr> of
        Inl e \<Rightarrow> (Inl (Native e), tr)
      | Inr response \<Rightarrow>
          (case Body response of
             None \<Rightarrow> (Inl (Error (''Object not found: '' @ key)), tr)
           | Some buf \<Rightarrow>
               (let storedHash = metadata_attr response ''content-hash''
                in if truthy storedHash \<and> \<not> verifyHash buf (or_else storedHash [])
                   then (Inl (Error (''Hash verification failed for object: '' @ key)), tr)
                   else
                     (let (h, tr1) =
                            (if truthy storedHash then (or_else storedHash [], tr)
                             else (let (m, tr') = generateIntegrityMetadata w tr buf in (hash m, tr')));
                          uploaded = metadata_attr response ''upload-timestamp'';
                          (ts, tr2) =
                            (if truthy uploaded then (or_else uploaded [], tr1)
                             else (let (now, tr') = new_Date w tr1 in (toISOString now, tr')))
                      in (Inr \<lparr>data = buf,
                               metadata = \<lparr>hash = h, size_bytes = length buf, timestamp = ts\<rparr>\<rparr>, tr2)))))"

definition S3Store_exists :: "world \<Rightarrow> S3Store \<Rightarrow> string \<Rightarrow> error + bool" where
  "S3Store_exists w st key =
     (case s3_head w \<lparr>Bucket = bucket st, Key = key\<rparr> of
        None \<Rightarrow> Inr True
      | Some e \<Rightarrow>
          if name e = ''NoSuchKey'' \<or> name e = ''NotFound'' then Inr False else Inl (Native e))"

section \<open>ipfs-store.ts\<close>

record IPFSStore =
  timeout :: nat

text \<open>\<open>config.timeout || 30000\<close>\<close>

definition timeout_or_default :: "IPFSConfig \<Rightarrow> nat" where
  "timeout_or_default config =
     (case IPFSConfig.timeout config of None \<Rightarrow> 30000
      | Some n \<Rightarrow> if n = 0 then 30000 else n)"

definition IPFSStore_new :: "world \<Rightarrow> IPFSConfig \<Rightarrow> error + IPFSStore" where
  "IPFSStore_new w config =
     (case createIPFS w (IPFSConfig.endpoint config) (timeout_or_default config) of
        Some e \<Rightarrow> Inl (Native e)
      | None \<Rightarrow> Inr \<lparr>timeout = timeout_or_default config\<rparr>)"

definition IPFSStore_store ::
  "world \<Rightarrow> trace \<Rightarrow> IPFSStore \<Rightarrow> byte list \<Rightarrow> (error + StoreResult) \<times> trace" where
  "IPFSStore_store w tr st buffer =
     (let (metadata, tr1) = generateIntegrityMetadata w tr buffer;
          tr2 = tr1\<lparr>adds := adds tr1 @ [buffer]\<rparr>
      in (case ipfs_add w buffer of
            Inl e \<Rightarrow> (Inl (Native e), tr2)
          | Inr cid \<Rightarrow>
              (Inr \<lparr>hash = hash metadata, size_bytes = size_bytes metadata,
                    timestamp = timestamp metadata,
                    s3Key = None, ipfsHash = Some cid\<rparr>, tr2)))"

definition IPFSStore_retrieve ::
  "world \<Rightarrow> trace \<Rightarrow> IPFSStore \<Rightarrow> string \<Rightarrow> (error + RetrieveResult) \<times> trace" where
  "IPFSStore_retrieve w tr st cid =
     (case ipfs_cat w cid of
        Inl e \<Rightarrow> (Inl (Native e), tr)
      | Inr chunks \<Rightarrow>
          (let data = concat chunks;
               (metadata, tr1) = generateIntegrityMetadata w tr data;
               (now, tr2) = new_Date w tr1
           in (Inr \<lparr>data = data,
                    metadata = \<lparr>hash = hash metadata, size_bytes = size_bytes metadata,
                                timestamp = toISOString now\<rparr>\<rparr>, tr2)))"

definition IPFSStore_exists :: "world \<Rightarrow> IPFSStore \<Rightarrow> string \<Rightarrow> error + bool" where
  "IPFSStore_exists w st cid =
     (case ipfs_pin_ls w cid of
        Inl e \<Rightarrow> Inr False
      | Inr [] \<Rightarrow> Inr False
      | Inr (c # _) \<Rightarrow> Inr (c = cid))"

section \<open>evidence-store.ts\<close>

record EvidenceStore =
  s3Store :: "S3Store option"
  ipfsStore :: "IPFSStore option"

text \<open>
  The constructor builds the configured stores in order, the object store first; an error
  thrown by either \<open>new\<close> leaves the constructor before the check that follows.
\<close>

definition new_s3Store :: "world \<Rightarrow> EvidenceStoreConfig \<Rightarrow> error + S3Store option" where
  "new_s3Store w config =
     (case s3 config of
        None \<Rightarrow> Inr None
      | Some c \<Rightarrow> (case S3Store_new w c of Inl e \<Rightarrow> Inl e | Inr st \<Rightarrow> Inr (Some st)))"

definition new_ipfsStore :: "world \<Rightarrow> EvidenceStoreConfig \<Rightarrow> error + IPFSStore option" where
  "new_ipfsStore w config =
     (case ipfs config of
        None \<Rightarrow> Inr None
      | Some c \<Rightarrow> (case IPFSStore_new w c of Inl e \<Rightarrow> Inl e | Inr st \<Rightarrow> Inr (Some st)))"

definition EvidenceStore_new :: "world \<Rightarrow> EvidenceStoreConfig \<Rightarrow> error + EvidenceStore" where
  "EvidenceStore_new w config =
     (case new_s3Store w config of
        Inl e \<Rightarrow> Inl e
      | Inr s3Store' \<Rightarrow>
          (case new_ipfsStore w config of
             Inl e \<Rightarrow> Inl e
           | Inr ipfsStore' \<Rightarrow>
               if s3Store' = None \<and> ipfsStore' = None
               then Inl (Error ''At least one store (S3 or IPFS) must be configured'')
               else Inr \<lparr>s3Store = s3Store', ipfsStore = ipfsStore'\<rparr>))"

text \<open>
  The two writes that \<open>store\<close> issues: \<open>this.s3Store?.store(buffer, options?.s3Key)\<close> and
  \<open>this.ipfsStore?.store(buffer)\<close>, each \<open>None\<close> when its backend is not configured. Both
  calls run up to their first \<open>await\<close> in this order, which fixes the order of their clock
  readings.
\<close>

definition s3_write ::
  "world \<Rightarrow> trace \<Rightarrow> EvidenceStore \<Rightarrow> byte list \<Rightarrow> StoreOptions option
     \<Rightarrow> (error + StoreResult) option \<times> trace" where
  "s3_write w tr es buffer options =
     (case s3Store es of
        None \<Rightarrow> (None, tr)
      | Some st \<Rightarrow>
          (let (r, tr') = S3Store_store w tr st buffer
                            (case options of None \<Rightarrow> None | Some opts \<Rightarrow> opt_s3Key opts)
           in (Some r, tr')))"

definition ipfs_write ::
  "world \<Rightarrow> trace \<Rightarrow> EvidenceStore \<Rightarrow> byte list \<Rightarrow> (error + StoreResult) option \<times> trace" where
  "ipfs_write w tr es buffer =
     (case ipfsStore es of
        None \<Rightarrow> (None, tr)
      | Some st \<Rightarrow> (let (r, tr') = IPFSStore_store w tr st buffer in (Some r, tr')))"

text \<open>The body of the loop over \<open>results.entries()\<close>.\<close>

definition store_step :: "EvidenceStore \<Rightarrow> StoreResult \<Rightarrow> nat \<times> StoreResult settlement \<Rightarrow> StoreResult" where
  "store_step es result entry =
     (case entry of (index, settlement) \<Rightarrow>
        (case settlement of
           Rejected _ \<Rightarrow> result
         | Fulfilled storeResult \<Rightarrow>
             if index = 0 \<and> s3Store es \<noteq> None then result\<lparr>s3Key := s3Key storeResult\<rparr>
             else if (index = 1 \<and> s3Store es \<noteq> None) \<or> (index = 0 \<and> s3Store es = None)
             then result\<lparr>ipfsHash := ipfsHash storeResult\<rparr>
             else result))"

definition EvidenceStore_store ::
  "world \<Rightarrow> trace \<Rightarrow> EvidenceStore \<Rightarrow> byte list \<Rightarrow> StoreOptions option \<Rightarrow> (error + StoreResult) \<times> trace" where
  "EvidenceStore_store w tr es buffer options =
     (let (metadata, tr1) = generateIntegrityMetadata w tr buffer;
          (p1, tr2) = s3_write w tr1 es buffer options;
          (p2, tr3) = ipfs_write w tr2 es buffer;
          results = allSettled (filter_Boolean [p1, p2]);
          result = \<lparr>hash = hash metadata, size_bytes = size_bytes metadata,
                    timestamp = timestamp metadata, s3Key = None, ipfsHash = None\<rparr>;
          result' = foldl (store_step es) result (enumerate 0 results);
          failedStores = filter rejected results
      in if length failedStores = length results
         then (Inl (Error ''All storage operations failed''), tr3)
         else (Inr result', tr3))"

text \<open>The second half of \<open>retrieve\<close>: the IPFS read, or the final \<open>throw\<close>.\<close>

definition retrieve_ipfs ::
  "world \<Rightarrow> trace \<Rightarrow> EvidenceStore \<Rightarrow> Source \<Rightarrow> (error + RetrieveResult) \<times> trace" where
  "retrieve_ipfs w tr es source =
     (case ipfsStore es of
        Some st \<Rightarrow>
          if truthy (src_ipfsHash source)
          then IPFSStore_retrieve w tr st (or_else (src_ipfsHash source) [])
          else (Inl (Error ''No valid storage source provided or available''), tr)
      | None \<Rightarrow> (Inl (Error ''No valid storage source provided or available''), tr))"

definition EvidenceStore_retrieve ::
  "world \<Rightarrow> trace \<Rightarrow> EvidenceStore \<Rightarrow> Source \<Rightarrow> (error + RetrieveResult) \<times> trace" where
  "EvidenceStore_retrieve w tr es source =
     (case s3Store es of
        Some st \<Rightarrow>
          if truthy (src_s3Key source)
          then (case S3Store_retrieve w tr st (or_else (src_s3Key source) []) of
                  (Inr r, tr1) \<Rightarrow> (Inr r, tr1)
                | (Inl e, tr1) \<Rightarrow>
                    if \<not> truthy (src_ipfsHash source) then (Inl e, tr1)
                    else retrieve_ipfs w tr1 es source)
          else retrieve_ipfs w tr es source
      | None \<Rightarrow> retrieve_ipfs w tr es source)"

definition EvidenceStore_verify :: "byte list \<Rightarrow> string \<Rightarrow> error + bool" where
  "EvidenceStore_verify buffer expectedHash = Inr (verifyHash buffer expectedHash)"

definition EvidenceStore_getMetadata ::
  "world \<Rightarrow> trace \<Rightarrow> EvidenceStore \<Rightarrow> Source \<Rightarrow> (error + EvidenceMetadata) \<times> trace" where
  "EvidenceStore_getMetadata w tr es source =
     (case EvidenceStore_retrieve w tr es source of
        (Inl e, tr1) \<Rightarrow> (Inl e, tr1)
      | (Inr result, tr1) \<Rightarrow>
          (let ok = verifyHash (data result) (hash (metadata result))
           in (Inr \<lparr>hash = hash (metadata result),
                    size_bytes = size_bytes (metadata result),
                    timestamp = timestamp (metadata result),
                    s3Key = src_s3Key source,
                    ipfsHash = src_ipfsHash source,
                    verified = ok\<rparr>, tr1)))"

record ExistsResult =
  s3_exists :: bool
  ipfs_exists :: bool

text \<open>The two probes of \<open>exists\<close>; a backend that is not asked is \<open>Promise.resolve(false)\<close>.\<close>

definition s3_probe :: "world \<Rightarrow> EvidenceStore \<Rightarrow> Source \<Rightarrow> error + bool" where
  "s3_probe w es source =
     (case s3Store es of
        Some st \<Rightarrow>
          if truthy (src_s3Key source) then S3Store_exists w st (or_else (src_s3Key source) [])
          else Inr False
      | None \<Rightarrow> Inr False)"

definition ipfs_probe :: "world \<Rightarrow> EvidenceStore \<Rightarrow> Source \<Rightarrow> error + bool" where
  "ipfs_probe w es source =
     (case ipfsStore es of
        Some st \<Rightarrow>
          if truthy (src_ipfsHash source) then IPFSStore_exists w st (or_else (src_ipfsHash source) [])
          else Inr False
      | None \<Rightarrow> Inr False)"

definition settled_or_false :: "bool settlement \<Rightarrow> bool" where
  "settled_or_false s = (case s of Fulfilled v \<Rightarrow> v | Rejected _ \<Rightarrow> False)"

definition EvidenceStore_exists :: "world \<Rightarrow> EvidenceStore \<Rightarrow> Source \<Rightarrow> error + ExistsResult" where
  "EvidenceStore_exists w es source =
     (let results = allSettled [s3_probe w es source, ipfs_probe w es source];
          s3Exists = results ! 0;
          ipfsExists = results ! 1
      in Inr \<lparr>s3_exists = settled_or_false s3Exists, ipfs_exists = settled_or_false ipfsExists\<rparr>)"

section \<open>Observations and example runs\<close>

text \<open>A write that was issued and fulfilled.\<close>

definition fulfilled :: "(error + 'a) option \<Rightarrow> bool" where
  "fulfilled p = (case p of Some (Inr _) \<Rightarrow> True | _ \<Rightarrow> False)"

text \<open>
  The outcome of each of the two writes as \<open>store\<close> issues them: after its own reading of
  the clock, and the IPFS write after the S3 write has started.
\<close>

definition issued_s3_write ::
  "world \<Rightarrow> trace \<Rightarrow> EvidenceStore \<Rightarrow> byte list \<Rightarrow> StoreOptions option \<Rightarrow> (error + StoreResult) option" where
  "issued_s3_write w tr es buffer options =
     fst (s3_write w (snd (generateIntegrityMetadata w tr buffer)) es buffer options)"

definition issued_ipfs_write ::
  "world \<Rightarrow> trace \<Rightarrow> EvidenceStore \<Rightarrow> byte list \<Rightarrow> StoreOptions option \<Rightarrow> (error + StoreResult) option" where
  "issued_ipfs_write w tr es buffer options =
     fst (ipfs_write w (snd (s3_write w (snd (generateIntegrityMetadata w tr buffer)) es buffer options)) es buffer)"

text \<open>The \<open>upload-timestamp\<close> attribute of every put command that was sent.\<close>

definition embedded_timestamps :: "trace \<Rightarrow> string option list" where
  "embedded_timestamps tr = map (\<lambda>c. PutObjectCommand.Metadata c ''upload-timestamp'') (puts tr)"

text \<open>The UTF-8 bytes of \<open>hello world\<close>, and the wrong hash of the test suite.\<close>

definition hello_world :: "byte list" where
  "hello_world = [0x68, 0x65, 0x6c, 0x6c, 0x6f, 0x20, 0x77, 0x6f, 0x72, 0x6c, 0x64]"

definition wrongHash :: string where
  "wrongHash = ''0x1234567890abcdef1234567890abcdef1234567890abcdef1234567890abcdef''"

text \<open>A clock that advances by one millisecond between its first readings.\<close>

definition clock0 :: "nat \<Rightarrow> Date" where
  "clock0 n =
     \<lparr>getTime = 1704067200000 + int n,
      toISOString = (if n = 0 then ''2024-01-01T00:00:00.000Z''
                     else if n = 1 then ''2024-01-01T00:00:00.001Z''
                     else ''2024-01-01T00:00:00.002Z'')\<rparr>"

definition s3_failed :: client_error where
  "s3_failed = ClientError ''NetworkingError'' ''S3 failed''"

text \<open>The object \<open>hello world\<close> as the object store holds it, with \<open>h\<close> as its recorded hash.\<close>

definition stored_object :: "string \<Rightarrow> GetObjectOutput" where
  "stored_object h =
     \<lparr>Body = Some hello_world,
      Metadata = Some [''content-hash'' \<mapsto> h, ''content-size'' \<mapsto> ''11'',
                       ''upload-timestamp'' \<mapsto> ''2023-12-31T23:59:59.000Z'']\<rparr>"

text \<open>
  Three worlds: both services answer; the object store is unreachable; the object store
  holds an object whose recorded hash is not the hash of its bytes. In each, the client
  constructors throw as the SDKs do on an empty region and on an empty endpoint URL.
\<close>

definition world_ok :: world where
  "world_ok =
     \<lparr>clock = clock0,
      s3_put = (\<lambda>c. None),
      s3_get = (\<lambda>c. Inr (stored_object (sha256 hello_world))),
      s3_head = (\<lambda>c. None),
      ipfs_add = (\<lambda>b. Inr ''QmTest123''),
      ipfs_cat = (\<lambda>c. Inr [hello_world]),
      ipfs_pin_ls = (\<lambda>c. Inr [c]),
      new_S3Client = (\<lambda>endpoint region accessKeyId secretAccessKey.
         if region = [] then Some (ClientError ''Error'' ''Region is missing'') else None),
      createIPFS = (\<lambda>url timeout.
         if url = [] then Some (ClientError ''TypeError'' ''Invalid URL'') else None)\<rparr>"

definition world_s3_down :: world where
  "world_s3_down =
     world_ok\<lparr>s3_put := (\<lambda>c. Some s3_failed),
              s3_get := (\<lambda>c. Inl s3_failed),
              s3_head := (\<lambda>c. Some s3_failed)\<rparr>"

definition world_tampered :: world where
  "world_tampered = world_ok\<lparr>s3_get := (\<lambda>c. Inr (stored_object wrongHash))\<rparr>"

definition tr0 :: trace where
  "tr0 = \<lparr>ticks = 0, puts = [], adds = []\<rparr>"

definition s3_backend :: S3Store where
  "s3_backend = \<lparr>bucket = ''test-bucket'', objectLockEnabled = False\<rparr>"

definition ipfs_backend :: IPFSStore where
  "ipfs_backend = \<lparr>timeout = 30000\<rparr>"

definition es_both :: EvidenceStore where
  "es_both = \<lparr>s3Store = Some s3_backend, ipfsStore = Some ipfs_backend\<rparr>"

definition es_s3_only :: EvidenceStore where
  "es_s3_only = \<lparr>s3Store = Some s3_backend, ipfsStore = None\<rparr>"

definition by_key :: Source where
  "by_key = \<lparr>src_s3Key = Some ''evidence/abcd'', src_ipfsHash = None\<rparr>"

definition by_both :: Source where
  "by_both = \<lparr>src_s3Key = Some ''evidence/abcd'', src_ipfsHash = Some ''QmTest123''\<rparr>"

definition no_backend :: EvidenceStoreConfig where
  "no_backend = \<lparr>s3 = None, ipfs = None\<rparr>"

definition ipfs_config :: EvidenceStoreConfig where
  "ipfs_config = \<lparr>s3 = None, ipfs = Some \<lparr>endpoint = ''http://localhost:5001'', timeout = None\<rparr>\<rparr>"

text \<open>A configuration that names the IPFS backend with an empty endpoint.\<close>

definition empty_endpoint_config :: EvidenceStoreConfig where
  "empty_endpoint_config = \<lparr>s3 = None, ipfs = Some \<lparr>endpoint = [], timeout = None\<rparr>\<rparr>"

section \<open>The digest\<close>

lemma length_sha_round: "length (sha_round s kw) = length s"
  by (induction s kw rule: sha_round.induct) (simp_all add: Let_def)

lemma length_foldl_sha_round: "length (foldl sha_round s kws) = length s"
  by (induction kws arbitrary: s) (simp_all add: length_sha_round)

lemma length_compress: "length (compress hs blk) = length hs"
  by (simp add: compress_def length_foldl_sha_round)

lemma length_foldl_compress: "length (foldl compress hs bs) = length hs"
  by (induction bs arbitrary: hs) (simp_all add: length_compress)

lemma length_digest: "length (digest m) = 8"
  by (simp add: digest_def length_foldl_compress H0_def)

lemma length_hex32: "length (hex32 w) = 8"
  by (simp add: hex32_def)

lemma length_concat_hex32: "length (concat (map hex32 ws)) = 8 * length ws"
  by (induction ws) (simp_all add: length_hex32)

lemma length_digest_hex: "length (digest_hex m) = 64"
  by (simp add: digest_hex_def length_concat_hex32 length_digest)

lemma hexchar_lower: "hexchar n \<in> set ''0123456789abcdef''"
proof -
  have "n mod 16 < length ''0123456789abcdef''" by simp
  then show ?thesis unfolding hexchar_def by (rule nth_mem)
qed

lemma hex32_lower: "set (hex32 w) \<subseteq> set ''0123456789abcdef''"
  unfolding hex32_def set_map by (rule image_subsetI) (rule hexchar_lower)

lemma set_concat_map_subset: "(\<And>x. set (f x) \<subseteq> S) \<Longrightarrow> set (concat (map f xs)) \<subseteq> S"
  by (induction xs) auto

lemma digest_hex_lower: "set (digest_hex m) \<subseteq> set ''0123456789abcdef''"
  unfolding digest_hex_def by (rule set_concat_map_subset) (rule hex32_lower)

lemma length_sha256: "length (sha256 b) = 66"
  by (simp add: sha256_def length_digest_hex)

lemma sha256_prefix: "take 2 (sha256 b) = ''0x''"
  by (simp add: sha256_def)

lemma drop2_sha256: "drop 2 (sha256 b) = digest_hex b"
  by (simp add: sha256_def)

lemma sha256_digits: "set (drop 2 (sha256 b)) \<subseteq> set ''0123456789abcdef''"
  unfolding drop2_sha256 by (rule digest_hex_lower)

text \<open>The two digests that \<open>hash.test.ts\<close> expects, computed by the model.\<close>

lemma sha256_hello_world:
  "sha256 hello_world = ''0xb94d27b9934d3e08a52e52d7da7dabfac484efe37a5380ee9088f7ace2efcde9''"
  by code_simp

lemma sha256_empty:
  "sha256 [] = ''0xe3b0c44298fc1c149afbf4c8996fb92427ae41e4649b934ca495991b7852b855''"
  by code_simp

lemma wrongHash_differs: "wrongHash \<noteq> sha256 hello_world"
  by (simp add: sha256_hello_world wrongHash_def)

lemma verifyHash_iff: "verifyHash b h = (h = sha256 b)"
  by (auto simp: verifyHash_def Let_def)

lemma gim_eq:
  "generateIntegrityMetadata w tr d =
     (\<lparr>hash = sha256 d, size_bytes = length d, timestamp = toISOString (clock w (ticks tr))\<rparr>,
      tr\<lparr>ticks := Suc (ticks tr)\<rparr>)"
  by (simp add: generateIntegrityMetadata_def new_Date_def)

section \<open>Optional strings\<close>

lemma or_else_Some: "s \<noteq> [] \<Longrightarrow> or_else (Some s) d = s"
  by (simp add: or_else_def)

lemma truthy_Some: "truthy (Some s) = (s \<noteq> [])"
  by (simp add: truthy_def)

lemma truthy_None: "truthy None = False"
  by (simp add: truthy_def)

lemmas examples =
  world_ok_def world_s3_down_def world_tampered_def tr0_def s3_backend_def ipfs_backend_def
  es_both_def es_s3_only_def by_key_def by_both_def clock0_def stored_object_def

lemmas model_defs =
  EvidenceStore_store_def s3_write_def ipfs_write_def S3Store_store_def
  S3Store_putCommand_def IPFSStore_store_def gim_eq new_Date_def Let_def
  allSettled_def settle_def store_step_def issued_s3_write_def issued_ipfs_write_def
  fulfilled_def EvidenceStore_retrieve_def retrieve_ipfs_def S3Store_retrieve_def
  IPFSStore_retrieve_def EvidenceStore_getMetadata_def metadata_attr_def truthy_def
  or_else_def verifyHash_iff EvidenceStore_exists_def s3_probe_def ipfs_probe_def
  S3Store_exists_def IPFSStore_exists_def settled_or_false_def

text \<open>
  The read operations test their selector with \<open>source.s3Key && ...\<close>: a field that holds the
  empty string is treated as an absent one. Below, a field is \<^emph>\<open>present\<close> when it holds a
  non-empty string.
\<close>

lemma retrieve_empty_ipfsHash:
  "EvidenceStore_retrieve w tr es (source\<lparr>src_ipfsHash := Some []\<rparr>)
     = EvidenceStore_retrieve w tr es (source\<lparr>src_ipfsHash := None\<rparr>)"
  by (auto simp: EvidenceStore_retrieve_def retrieve_ipfs_def truthy_def
           split: option.splits sum.splits prod.splits)

lemma retrieve_empty_s3Key:
  "EvidenceStore_retrieve w tr es (source\<lparr>src_s3Key := Some []\<rparr>)
     = EvidenceStore_retrieve w tr es (source\<lparr>src_s3Key := None\<rparr>)"
  by (auto simp: EvidenceStore_retrieve_def retrieve_ipfs_def truthy_def
           split: option.splits sum.splits prod.splits)

section \<open>store\<close>

lemma S3Store_store_cases:
  "(\<exists>e. fst (S3Store_store w tr st b k) = Inl (Native e)) \<or>
   (\<exists>r key. fst (S3Store_store w tr st b k) = Inr r \<and> s3Key r = Some key \<and> ipfsHash r = None)"
  by (cases "s3_put w (fst (fst (S3Store_putCommand w tr st b k)))")
     (auto simp: S3Store_store_def Let_def split: prod.splits)

lemma IPFSStore_store_cases:
  "(\<exists>e. fst (IPFSStore_store w tr st b) = Inl (Native e)) \<or>
   (\<exists>r cid. fst (IPFSStore_store w tr st b) = Inr r \<and> ipfsHash r = Some cid \<and> s3Key r = None)"
  by (cases "ipfs_add w b")
     (auto simp: IPFSStore_store_def Let_def split: prod.splits)

lemma store_eq:
  "fst (EvidenceStore_store w tr es buffer options) =
     (let p1 = issued_s3_write w tr es buffer options;
          p2 = issued_ipfs_write w tr es buffer options
      in if \<not> fulfilled p1 \<and> \<not> fulfilled p2 then Inl AllBackendsFailedError
         else Inr \<lparr>hash = sha256 buffer, size_bytes = length buffer,
                   timestamp = toISOString (clock w (ticks tr)),
                   s3Key = (case p1 of Some (Inr v) \<Rightarrow> s3Key v | _ \<Rightarrow> None),
                   ipfsHash = (case p2 of Some (Inr v) \<Rightarrow> ipfsHash v | _ \<Rightarrow> None)\<rparr>)"
  unfolding EvidenceStore_store_def issued_s3_write_def issued_ipfs_write_def gim_eq
  by (cases "s3Store es"; cases "ipfsStore es")
     (auto simp: Let_def s3_write_def ipfs_write_def allSettled_def settle_def store_step_def
                 fulfilled_def AllBackendsFailedError_def
           split: prod.splits sum.splits option.splits)

lemma filter_Boolean_set:
  "(\<forall>p \<in> set (filter_Boolean [a, b]). isl p) = (\<not> fulfilled a \<and> \<not> fulfilled b)"
  by (cases a; cases b) (auto simp: fulfilled_def split: sum.splits)

lemma S3Store_store_key: "S3Store_store w tr st b k = (Inr v, tr') \<Longrightarrow> s3Key v \<noteq> None"
  by (auto simp: S3Store_store_def Let_def split: prod.splits option.splits)

lemma IPFSStore_store_hash: "IPFSStore_store w tr st b = (Inr v, tr') \<Longrightarrow> ipfsHash v \<noteq> None"
  by (auto simp: IPFSStore_store_def Let_def split: prod.splits sum.splits)

lemma issued_s3_write_key:
  "issued_s3_write w tr es buffer options = Some (Inr v) \<Longrightarrow> s3Key v \<noteq> None"
  unfolding issued_s3_write_def s3_write_def
  by (auto split: option.splits prod.splits dest: S3Store_store_key)

lemma issued_ipfs_write_hash:
  "issued_ipfs_write w tr es buffer options = Some (Inr v) \<Longrightarrow> ipfsHash v \<noteq> None"
  unfolding issued_ipfs_write_def ipfs_write_def
  by (auto split: option.splits prod.splits dest: IPFSStore_store_hash)

text \<open>
  C1. For every payload and every configuration of backends, \<open>store\<close> raises the
  all-backends-failed error exactly when every write it issued failed. Otherwise it returns
  a \<open>StoreResult\<close> whose \<open>s3Key\<close> is present exactly when the object-store write was fulfilled
  and whose \<open>ipfsHash\<close> is present exactly when the IPFS write was fulfilled; each field is
  the one its own backend returned, also when a single backend is configured and holds the
  first slot of the results.
\<close>

theorem store_partial_failure:
  "let out = fst (EvidenceStore_store w tr es buffer options);
       p1 = issued_s3_write w tr es buffer options;
       p2 = issued_ipfs_write w tr es buffer options
   in (out = Inl AllBackendsFailedError) = (\<forall>p \<in> set (filter_Boolean [p1, p2]). isl p)
      \<and> (out \<noteq> Inl AllBackendsFailedError \<longrightarrow>
           (\<exists>r. out = Inr r
              \<and> (s3Key r \<noteq> None) = fulfilled p1
              \<and> (ipfsHash r \<noteq> None) = fulfilled p2
              \<and> s3Key r = (case p1 of Some (Inr v) \<Rightarrow> s3Key v | _ \<Rightarrow> None)
              \<and> ipfsHash r = (case p2 of Some (Inr v) \<Rightarrow> ipfsHash v | _ \<Rightarrow> None)))"
proof -
  define p1 where "p1 = issued_s3_write w tr es buffer options"
  define p2 where "p2 = issued_ipfs_write w tr es buffer options"
  have k1: "\<And>v. p1 = Some (Inr v) \<Longrightarrow> s3Key v \<noteq> None"
    unfolding p1_def by (rule issued_s3_write_key)
  have k2: "\<And>v. p2 = Some (Inr v) \<Longrightarrow> ipfsHash v \<noteq> None"
    unfolding p2_def by (rule issued_ipfs_write_hash)
  have f1: "(case p1 of Some (Inr v) \<Rightarrow> s3Key v | _ \<Rightarrow> None) \<noteq> None \<longleftrightarrow> fulfilled p1"
    using k1 by (auto simp: fulfilled_def split: option.splits sum.splits)
  have f2: "(case p2 of Some (Inr v) \<Rightarrow> ipfsHash v | _ \<Rightarrow> None) \<noteq> None \<longleftrightarrow> fulfilled p2"
    using k2 by (auto simp: fulfilled_def split: option.splits sum.splits)
  show ?thesis
    unfolding store_eq Let_def filter_Boolean_set p1_def [symmetric] p2_def [symmetric]
    using f1 f2 by simp
qed

text \<open>With the object store unreachable and IPFS answering, only \<open>ipfsHash\<close> is returned.\<close>

theorem store_partial_failure_witness:
  "fst (EvidenceStore_store world_s3_down tr0 es_both hello_world None) \<noteq> Inl AllBackendsFailedError
   \<and> fst (EvidenceStore_store world_s3_down tr0 es_both hello_world None)
       = Inr \<lparr>hash = sha256 hello_world, size_bytes = 11,
              timestamp = ''2024-01-01T00:00:00.000Z'',
              s3Key = None, ipfsHash = Some ''QmTest123''\<rparr>"
  using store_partial_failure [of world_s3_down tr0 es_both hello_world None]
  by (simp add: model_defs examples s3_failed_def hello_world_def AllBackendsFailedError_def)

lemma S3Store_putCommand_eq:
  "\<exists>c. fst (S3Store_putCommand w tr st buffer key)
          = (c, \<lparr>hash = sha256 buffer, size_bytes = length buffer,
                 timestamp = toISOString (clock w (ticks tr))\<rparr>)
      \<and> PutObjectCommand.Body c = buffer
      \<and> PutObjectCommand.Metadata c ''content-hash'' = Some (sha256 buffer)
      \<and> PutObjectCommand.Metadata c ''content-size'' = Some (toString_nat (length buffer))
      \<and> PutObjectCommand.Metadata c ''upload-timestamp'' = Some (toISOString (clock w (ticks tr)))
      \<and> puts (snd (S3Store_putCommand w tr st buffer key)) = puts tr
      \<and> adds (snd (S3Store_putCommand w tr st buffer key)) = adds tr"
  by (simp add: S3Store_putCommand_def gim_eq new_Date_def Let_def split: prod.splits)

lemma S3Store_store_trace:
  "\<exists>c. puts (snd (S3Store_store w tr st buffer key)) = puts tr @ [c]
      \<and> adds (snd (S3Store_store w tr st buffer key)) = adds tr
      \<and> PutObjectCommand.Body c = buffer
      \<and> PutObjectCommand.Metadata c ''content-hash'' = Some (sha256 buffer)
      \<and> PutObjectCommand.Metadata c ''content-size'' = Some (toString_nat (length buffer))
      \<and> PutObjectCommand.Metadata c ''upload-timestamp'' = Some (toISOString (clock w (ticks tr)))"
proof -
  obtain c where c: "fst (S3Store_putCommand w tr st buffer key)
          = (c, \<lparr>hash = sha256 buffer, size_bytes = length buffer,
                 timestamp = toISOString (clock w (ticks tr))\<rparr>)"
      "PutObjectCommand.Body c = buffer"
      "PutObjectCommand.Metadata c ''content-hash'' = Some (sha256 buffer)"
      "PutObjectCommand.Metadata c ''content-size'' = Some (toString_nat (length buffer))"
      "PutObjectCommand.Metadata c ''upload-timestamp'' = Some (toISOString (clock w (ticks tr)))"
      "puts (snd (S3Store_putCommand w tr st buffer key)) = puts tr"
      "adds (snd (S3Store_putCommand w tr st buffer key)) = adds tr"
    using S3Store_putCommand_eq [of w tr st buffer key] by blast
  obtain x tr1 where x: "S3Store_putCommand w tr st buffer key = (x, tr1)"
    by (cases "S3Store_putCommand w tr st buffer key")
  with c(1,6,7) have "puts (snd (S3Store_store w tr st buffer key)) = puts tr @ [c]"
      "adds (snd (S3Store_store w tr st buffer key)) = adds tr"
    by (auto simp: S3Store_store_def Let_def split: option.splits)
  with c show ?thesis by blast
qed

lemma IPFSStore_store_trace:
  "puts (snd (IPFSStore_store w tr st buffer)) = puts tr
   \<and> adds (snd (IPFSStore_store w tr st buffer)) = adds tr @ [buffer]
   \<and> ticks (snd (IPFSStore_store w tr st buffer)) = Suc (ticks tr)"
  by (simp add: IPFSStore_store_def gim_eq Let_def split: sum.splits)

lemma store_snd:
  "snd (EvidenceStore_store w tr es buffer options) =
     snd (ipfs_write w (snd (s3_write w (tr\<lparr>ticks := Suc (ticks tr)\<rparr>) es buffer options)) es buffer)"
  by (simp add: EvidenceStore_store_def gim_eq Let_def split: prod.splits)

lemma ipfs_write_trace:
  "puts (snd (ipfs_write w tr es buffer)) = puts tr
   \<and> adds (snd (ipfs_write w tr es buffer)) = adds tr @ (if ipfsStore es = None then [] else [buffer])"
  using IPFSStore_store_trace
  by (cases "ipfsStore es") (auto simp: ipfs_write_def split: prod.splits, (metis snd_conv)+)

lemma s3_write_trace_None:
  "s3Store es = None \<Longrightarrow> snd (s3_write w tr es buffer options) = tr"
  by (simp add: s3_write_def)

lemma s3_write_trace_Some:
  "s3Store es = Some st \<Longrightarrow>
     snd (s3_write w tr es buffer options) =
       snd (S3Store_store w tr st buffer (case options of None \<Rightarrow> None | Some opts \<Rightarrow> opt_s3Key opts))"
  by (simp add: s3_write_def split: prod.splits)

text \<open>
  C2, as the code has it. \<open>store\<close> computes the metadata of its \<open>StoreResult\<close> once, before
  the backend calls: hash and size of the payload and the first reading of the clock. Each
  backend's \<open>store\<close> computes its metadata again from the same buffer. So the hash and the
  size that the object store embeds are those of the \<open>StoreResult\<close>, while the
  \<open>upload-timestamp\<close> it embeds is the next reading of the clock; the IPFS node receives the
  buffer and no metadata.
\<close>

theorem store_metadata_recomputed:
  "let out = EvidenceStore_store w tr es buffer options; tr' = snd out
   in (\<forall>r. fst out = Inr r \<longrightarrow>
          hash r = sha256 buffer \<and> size_bytes r = length buffer
          \<and> timestamp r = toISOString (clock w (ticks tr)))
      \<and> (s3Store es = None \<longrightarrow> puts tr' = puts tr)
      \<and> (s3Store es \<noteq> None \<longrightarrow>
           (\<exists>c. puts tr' = puts tr @ [c]
              \<and> PutObjectCommand.Body c = buffer
              \<and> PutObjectCommand.Metadata c ''content-hash'' = Some (sha256 buffer)
              \<and> PutObjectCommand.Metadata c ''content-size'' = Some (toString_nat (length buffer))
              \<and> PutObjectCommand.Metadata c ''upload-timestamp''
                  = Some (toISOString (clock w (Suc (ticks tr))))))
      \<and> adds tr' = adds tr @ (if ipfsStore es = None then [] else [buffer])"
proof -
  let ?tr1 = "tr\<lparr>ticks := Suc (ticks tr)\<rparr>"
  let ?tr2 = "snd (s3_write w ?tr1 es buffer options)"
  let ?tr' = "snd (EvidenceStore_store w tr es buffer options)"
  let ?key = "case options of None \<Rightarrow> None | Some opts \<Rightarrow> opt_s3Key opts"
  have t: "?tr' = snd (ipfs_write w ?tr2 es buffer)"
    by (rule store_snd)
  have a: "\<forall>r. fst (EvidenceStore_store w tr es buffer options) = Inr r \<longrightarrow>
          hash r = sha256 buffer \<and> size_bytes r = length buffer
          \<and> timestamp r = toISOString (clock w (ticks tr))"
    by (auto simp: store_eq Let_def split: if_splits)
  have p: "puts ?tr' = puts ?tr2"
    and d: "adds ?tr' = adds ?tr2 @ (if ipfsStore es = None then [] else [buffer])"
    unfolding t using ipfs_write_trace [of w ?tr2 es buffer] by simp_all
  have b: "s3Store es = None \<longrightarrow> puts ?tr' = puts tr"
    using p by (simp add: s3_write_trace_None)
  have n: "s3Store es = None \<Longrightarrow> adds ?tr2 = adds tr"
    by (simp add: s3_write_trace_None)
  have c: "s3Store es \<noteq> None \<longrightarrow>
           (\<exists>c. puts ?tr' = puts tr @ [c]
              \<and> PutObjectCommand.Body c = buffer
              \<and> PutObjectCommand.Metadata c ''content-hash'' = Some (sha256 buffer)
              \<and> PutObjectCommand.Metadata c ''content-size'' = Some (toString_nat (length buffer))
              \<and> PutObjectCommand.Metadata c ''upload-timestamp''
                  = Some (toISOString (clock w (Suc (ticks tr)))))"
  proof
    assume "s3Store es \<noteq> None"
    then obtain st where st: "s3Store es = Some st" by blast
    show "\<exists>c. puts ?tr' = puts tr @ [c]
              \<and> PutObjectCommand.Body c = buffer
              \<and> PutObjectCommand.Metadata c ''content-hash'' = Some (sha256 buffer)
              \<and> PutObjectCommand.Metadata c ''content-size'' = Some (toString_nat (length buffer))
              \<and> PutObjectCommand.Metadata c ''upload-timestamp''
                  = Some (toISOString (clock w (Suc (ticks tr))))"
      unfolding p s3_write_trace_Some [OF st]
      using S3Store_store_trace [of w ?tr1 st buffer ?key] by auto
  qed
  have s: "s3Store es \<noteq> None \<Longrightarrow> adds ?tr2 = adds tr"
  proof -
    assume "s3Store es \<noteq> None"
    then obtain st where st: "s3Store es = Some st" by blast
    show ?thesis
      unfolding s3_write_trace_Some [OF st]
      using S3Store_store_trace [of w ?tr1 st buffer ?key] by auto
  qed
  have e: "adds ?tr' = adds tr @ (if ipfsStore es = None then [] else [buffer])"
    using d n s by (cases "s3Store es = None") simp_all
  from a b c e show ?thesis unfolding Let_def by blast
qed

theorem store_metadata_recomputed_witness:
  "s3Store es_both \<noteq> None
   \<and> (\<exists>c. puts (snd (EvidenceStore_store world_ok tr0 es_both hello_world None)) = [c]
         \<and> PutObjectCommand.Metadata c ''content-hash'' = Some (sha256 hello_world)
         \<and> PutObjectCommand.Metadata c ''content-size'' = Some ''11''
         \<and> PutObjectCommand.Metadata c ''upload-timestamp'' = Some ''2024-01-01T00:00:00.001Z'')
   \<and> adds (snd (EvidenceStore_store world_ok tr0 es_both hello_world None)) = [hello_world]"
proof -
  have s: "s3Store es_both \<noteq> None" "ipfsStore es_both \<noteq> None" by (simp_all add: es_both_def)
  have l: "toString_nat (length hello_world) = ''11''"
    by (simp add: hello_world_def toString_nat.simps)
  have c: "toISOString (clock world_ok (Suc (ticks tr0))) = ''2024-01-01T00:00:00.001Z''"
    by (simp add: world_ok_def clock0_def tr0_def)
  have p: "puts tr0 = []" "adds tr0 = []" by (simp_all add: tr0_def)
  from store_metadata_recomputed [of world_ok tr0 es_both hello_world None] s
  show ?thesis unfolding Let_def l c p by auto
qed

text \<open>
  One call of \<open>store\<close> on the empty payload with both backends, on a clock that advances
  between readings: the clock is read three times, the \<open>StoreResult\<close> carries the first
  reading and the object store embeds the second.
\<close>

theorem store_timestamps_differ:
  "fst (EvidenceStore_store world_ok tr0 es_both [] None)
     = Inr \<lparr>hash = sha256 [], size_bytes = 0, timestamp = ''2024-01-01T00:00:00.000Z'',
            s3Key = Some (''evidence/'' @ drop 2 (sha256 [])), ipfsHash = Some ''QmTest123''\<rparr>
   \<and> embedded_timestamps (snd (EvidenceStore_store world_ok tr0 es_both [] None))
       = [Some ''2024-01-01T00:00:00.001Z'']
   \<and> ticks (snd (EvidenceStore_store world_ok tr0 es_both [] None)) = 3"
  by (simp add: EvidenceStore_store_def s3_write_def ipfs_write_def S3Store_store_def
        S3Store_putCommand_def IPFSStore_store_def gim_eq new_Date_def Let_def
        allSettled_def settle_def store_step_def embedded_timestamps_def examples)

section \<open>The backend reads\<close>

lemma S3Store_retrieve_Inr:
  "fst (S3Store_retrieve w tr st key) = Inr r \<Longrightarrow>
     \<exists>response. s3_get w \<lparr>Bucket = bucket st, Key = key\<rparr> = Inr response
        \<and> Body response = Some (data r)
        \<and> (truthy (metadata_attr response ''content-hash'')
             \<longrightarrow> metadata_attr response ''content-hash'' = Some (sha256 (data r)))
        \<and> hash (metadata r) = sha256 (data r)"
  by (auto simp: S3Store_retrieve_def Let_def gim_eq verifyHash_iff truthy_def or_else_def
           split: sum.splits option.splits if_splits prod.splits)

lemma S3Store_retrieve_IntegrityError:
  "(fst (S3Store_retrieve w tr st key) = Inl (IntegrityError key)) =
     (\<exists>response bytes. s3_get w \<lparr>Bucket = bucket st, Key = key\<rparr> = Inr response
        \<and> Body response = Some bytes
        \<and> truthy (metadata_attr response ''content-hash'')
        \<and> metadata_attr response ''content-hash'' \<noteq> Some (sha256 bytes))"
  by (auto simp: S3Store_retrieve_def Let_def gim_eq verifyHash_iff truthy_def or_else_def
                 IntegrityError_def
           split: sum.splits option.splits if_splits prod.splits)

lemma S3Store_retrieve_raises:
  "s3_get w \<lparr>Bucket = bucket st, Key = key\<rparr> = Inr response \<Longrightarrow> Body response = Some bytes \<Longrightarrow>
     isl (fst (S3Store_retrieve w tr st key)) =
       (truthy (metadata_attr response ''content-hash'')
          \<and> metadata_attr response ''content-hash'' \<noteq> Some (sha256 bytes))"
  by (auto simp: S3Store_retrieve_def Let_def gim_eq verifyHash_iff truthy_def or_else_def
           split: sum.splits option.splits if_splits prod.splits)

lemma S3Store_retrieve_errors:
  "fst (S3Store_retrieve w tr st key) = Inl e \<Longrightarrow>
     (\<exists>c. e = Native c) \<or> e = NotFoundError key \<or> e = IntegrityError key"
  by (auto simp: S3Store_retrieve_def NotFoundError_def IntegrityError_def Let_def
           split: sum.splits option.splits if_splits prod.splits)

lemma IPFSStore_retrieve_cases:
  "(\<exists>c. fst (IPFSStore_retrieve w tr st cid) = Inl (Native c)) \<or>
   (\<exists>r. fst (IPFSStore_retrieve w tr st cid) = Inr r \<and> hash (metadata r) = sha256 (data r))"
  by (cases "ipfs_cat w cid")
     (auto simp: IPFSStore_retrieve_def Let_def gim_eq new_Date_def split: prod.splits)

lemma IPFSStore_retrieve_hash:
  "fst (IPFSStore_retrieve w tr st cid) = Inr r \<Longrightarrow> hash (metadata r) = sha256 (data r)"
  using IPFSStore_retrieve_cases [of w tr st cid] by auto

lemma IntegrityError_not_NotFound: "IntegrityError key \<noteq> NotFoundError key'"
  by (simp add: IntegrityError_def NotFoundError_def)

text \<open>
  C5. A backend read checks the retrieved bytes against the hash stored with the object,
  when the object carries one, and never returns an object that fails the check.
  \<open>S3Store.retrieve\<close> raises the hash-verification error exactly when the object store
  returned bytes whose \<open>content-hash\<close> attribute is present (a non-empty string) and differs
  from the hash recomputed from those bytes; on a read that returned bytes this is its only
  failure. The error is not the not-found error. An IPFS object carries no hash attribute,
  and \<open>IPFSStore.retrieve\<close> never raises this error.
\<close>

theorem backend_read_integrity:
  "(fst (S3Store_retrieve w tr st key) = Inl (IntegrityError key)) =
     (\<exists>response bytes. s3_get w \<lparr>Bucket = bucket st, Key = key\<rparr> = Inr response
        \<and> Body response = Some bytes
        \<and> truthy (metadata_attr response ''content-hash'')
        \<and> metadata_attr response ''content-hash'' \<noteq> Some (sha256 bytes))
   \<and> (\<forall>response bytes. s3_get w \<lparr>Bucket = bucket st, Key = key\<rparr> = Inr response
          \<and> Body response = Some bytes \<longrightarrow>
        isl (fst (S3Store_retrieve w tr st key)) =
          (truthy (metadata_attr response ''content-hash'')
             \<and> metadata_attr response ''content-hash'' \<noteq> Some (sha256 bytes)))
   \<and> (\<forall>r. fst (S3Store_retrieve w tr st key) = Inr r \<longrightarrow>
        (\<exists>response. s3_get w \<lparr>Bucket = bucket st, Key = key\<rparr> = Inr response
           \<and> Body response = Some (data r)
           \<and> (truthy (metadata_attr response ''content-hash'')
                \<longrightarrow> metadata_attr response ''content-hash'' = Some (sha256 (data r)))))
   \<and> IntegrityError key \<noteq> NotFoundError key
   \<and> fst (IPFSStore_retrieve w tr ist cid) \<noteq> Inl (IntegrityError key)"
proof -
  have a: "(fst (S3Store_retrieve w tr st key) = Inl (IntegrityError key)) =
     (\<exists>response bytes. s3_get w \<lparr>Bucket = bucket st, Key = key\<rparr> = Inr response
        \<and> Body response = Some bytes
        \<and> truthy (metadata_attr response ''content-hash'')
        \<and> metadata_attr response ''content-hash'' \<noteq> Some (sha256 bytes))"
    by (rule S3Store_retrieve_IntegrityError)
  have b: "\<forall>response bytes. s3_get w \<lparr>Bucket = bucket st, Key = key\<rparr> = Inr response
          \<and> Body response = Some bytes \<longrightarrow>
        isl (fst (S3Store_retrieve w tr st key)) =
          (truthy (metadata_attr response ''content-hash'')
             \<and> metadata_attr response ''content-hash'' \<noteq> Some (sha256 bytes))"
    using S3Store_retrieve_raises by blast
  have c: "\<forall>r. fst (S3Store_retrieve w tr st key) = Inr r \<longrightarrow>
        (\<exists>response. s3_get w \<lparr>Bucket = bucket st, Key = key\<rparr> = Inr response
           \<and> Body response = Some (data r)
           \<and> (truthy (metadata_attr response ''content-hash'')
                \<longrightarrow> metadata_attr response ''content-hash'' = Some (sha256 (data r))))"
    using S3Store_retrieve_Inr by blast
  have d: "IntegrityError key \<noteq> NotFoundError key"
    by (rule IntegrityError_not_NotFound)
  have e: "fst (IPFSStore_retrieve w tr ist cid) \<noteq> Inl (IntegrityError key)"
    using IPFSStore_retrieve_cases [of w tr ist cid] by (auto simp: IntegrityError_def)
  from a b c d e show ?thesis by blast
qed

theorem backend_read_integrity_witness:
  "fst (S3Store_retrieve world_tampered tr0 s3_backend ''evidence/abcd'') = Inl (IntegrityError ''evidence/abcd'')
   \<and> isl (fst (S3Store_retrieve world_tampered tr0 s3_backend ''evidence/abcd''))
   \<and> \<not> isl (fst (S3Store_retrieve world_ok tr0 s3_backend ''evidence/abcd''))"
proof -
  have g: "s3_get world_tampered \<lparr>Bucket = bucket s3_backend, Key = ''evidence/abcd''\<rparr> = Inr (stored_object wrongHash)"
    "Body (stored_object wrongHash) = Some hello_world"
    "truthy (metadata_attr (stored_object wrongHash) ''content-hash'')"
    "metadata_attr (stored_object wrongHash) ''content-hash'' \<noteq> Some (sha256 hello_world)"
    using wrongHash_differs
    by (simp_all add: world_tampered_def stored_object_def metadata_attr_def truthy_def)
       (simp add: wrongHash_def)
  have o: "s3_get world_ok \<lparr>Bucket = bucket s3_backend, Key = ''evidence/abcd''\<rparr> = Inr (stored_object (sha256 hello_world))"
    "Body (stored_object (sha256 hello_world)) = Some hello_world"
    "metadata_attr (stored_object (sha256 hello_world)) ''content-hash'' = Some (sha256 hello_world)"
    by (simp_all add: world_ok_def stored_object_def metadata_attr_def)
  from backend_read_integrity [of world_tampered tr0 s3_backend "''evidence/abcd''"] g
  have a: "fst (S3Store_retrieve world_tampered tr0 s3_backend ''evidence/abcd'') = Inl (IntegrityError ''evidence/abcd'')"
    and b: "isl (fst (S3Store_retrieve world_tampered tr0 s3_backend ''evidence/abcd''))"
    by blast+
  from backend_read_integrity [of world_ok tr0 s3_backend "''evidence/abcd''"] o
  have c: "\<not> isl (fst (S3Store_retrieve world_ok tr0 s3_backend ''evidence/abcd''))"
    by blast
  from a b c show ?thesis by blast
qed

section \<open>retrieve\<close>

text \<open>
  C3. Let \<open>retrieve\<close> be called with \<open>s3Key\<close> present and the object store configured, and
  let the object-store read fail. If \<open>ipfsHash\<close> is absent, that error is the error of the
  call, unchanged. If \<open>ipfsHash\<close> is present and IPFS is configured, the IPFS read is made
  and its outcome is the outcome of the call.
\<close>

theorem retrieve_s3_failure:
  assumes "s3Store es = Some st" and "src_s3Key source = Some key" and "key \<noteq> []"
    and "fst (S3Store_retrieve w tr st key) = Inl e"
  shows "(src_ipfsHash source = None \<longrightarrow> fst (EvidenceStore_retrieve w tr es source) = Inl e)
       \<and> (\<forall>ist cid. ipfsStore es = Some ist \<and> src_ipfsHash source = Some cid \<and> cid \<noteq> [] \<longrightarrow>
            EvidenceStore_retrieve w tr es source
              = IPFSStore_retrieve w (snd (S3Store_retrieve w tr st key)) ist cid)"
  using assms
  by (cases "S3Store_retrieve w tr st key")
     (auto simp: EvidenceStore_retrieve_def retrieve_ipfs_def or_else_Some truthy_Some truthy_None)

theorem retrieve_s3_failure_witness:
  "fst (S3Store_retrieve world_s3_down tr0 s3_backend ''evidence/abcd'') = Inl (Native s3_failed)
   \<and> fst (EvidenceStore_retrieve world_s3_down tr0 es_both by_key) = Inl (Native s3_failed)
   \<and> EvidenceStore_retrieve world_s3_down tr0 es_both by_both
       = IPFSStore_retrieve world_s3_down tr0 ipfs_backend ''QmTest123''"
proof -
  have f: "fst (S3Store_retrieve world_s3_down tr0 s3_backend ''evidence/abcd'') = Inl (Native s3_failed)"
    and t: "snd (S3Store_retrieve world_s3_down tr0 s3_backend ''evidence/abcd'') = tr0"
    by (simp_all add: S3Store_retrieve_def world_s3_down_def world_ok_def)
  have s: "s3Store es_both = Some s3_backend" by (simp add: es_both_def)
  have k1: "src_s3Key by_key = Some ''evidence/abcd''" and n1: "src_ipfsHash by_key = None"
    by (simp_all add: by_key_def)
  have k2: "src_s3Key by_both = Some ''evidence/abcd''" and n2: "src_ipfsHash by_both = Some ''QmTest123''"
    by (simp_all add: by_both_def)
  have i: "ipfsStore es_both = Some ipfs_backend" by (simp add: es_both_def)
  have ne: "''evidence/abcd'' \<noteq> []" by simp
  from retrieve_s3_failure [OF s k1 ne f] n1
  have a: "fst (EvidenceStore_retrieve world_s3_down tr0 es_both by_key) = Inl (Native s3_failed)"
    by blast
  from retrieve_s3_failure [OF s k2 ne f] i n2
  have b: "EvidenceStore_retrieve world_s3_down tr0 es_both by_both
       = IPFSStore_retrieve world_s3_down tr0 ipfs_backend ''QmTest123''"
    unfolding t by simp
  from f a b show ?thesis by blast
qed

text \<open>
  C10. Let \<open>retrieve\<close> be called with \<open>s3Key\<close> present and the object store configured, let
  the object-store read fail, and let \<open>ipfsHash\<close> be present while IPFS is not configured.
  Then the call raises the no-source error, with the message
  \<open>No valid storage source provided or available\<close>, and not the object-store error.
\<close>

theorem retrieve_no_source_masks_s3_error:
  assumes "s3Store es = Some st" and "src_s3Key source = Some key" and "key \<noteq> []"
    and "fst (S3Store_retrieve w tr st key) = Inl e"
    and "src_ipfsHash source = Some cid" and "cid \<noteq> []" and "ipfsStore es = None"
  shows "fst (EvidenceStore_retrieve w tr es source) = Inl NoSourceAvailableError
       \<and> NoSourceAvailableError = Error ''No valid storage source provided or available''
       \<and> e \<noteq> NoSourceAvailableError"
proof -
  have "e \<noteq> NoSourceAvailableError"
    using S3Store_retrieve_errors [OF assms(4)]
    by (auto simp: NoSourceAvailableError_def NotFoundError_def IntegrityError_def)
  moreover have "fst (EvidenceStore_retrieve w tr es source) = Inl NoSourceAvailableError"
    using assms
    by (cases "S3Store_retrieve w tr st key")
       (auto simp: EvidenceStore_retrieve_def retrieve_ipfs_def or_else_Some truthy_Some
                   NoSourceAvailableError_def)
  ultimately show ?thesis by (simp add: NoSourceAvailableError_def)
qed

theorem retrieve_no_source_masks_s3_error_witness:
  "fst (S3Store_retrieve world_s3_down tr0 s3_backend ''evidence/abcd'') = Inl (Native s3_failed)
   \<and> fst (EvidenceStore_retrieve world_s3_down tr0 es_s3_only by_both) = Inl NoSourceAvailableError
   \<and> Native s3_failed \<noteq> NoSourceAvailableError"
proof -
  have f: "fst (S3Store_retrieve world_s3_down tr0 s3_backend ''evidence/abcd'') = Inl (Native s3_failed)"
    by (simp add: S3Store_retrieve_def world_s3_down_def world_ok_def)
  have s: "s3Store es_s3_only = Some s3_backend" and i: "ipfsStore es_s3_only = None"
    by (simp_all add: es_s3_only_def)
  have k: "src_s3Key by_both = Some ''evidence/abcd''" and c: "src_ipfsHash by_both = Some ''QmTest123''"
    by (simp_all add: by_both_def)
  have ne: "''evidence/abcd'' \<noteq> []" "''QmTest123'' \<noteq> []" by simp_all
  from retrieve_no_source_masks_s3_error [OF s k ne(1) f c ne(2) i] f
  show ?thesis by blast
qed

section \<open>getMetadata\<close>

lemma retrieve_ipfs_hash:
  "fst (retrieve_ipfs w tr es source) = Inr r \<Longrightarrow> hash (metadata r) = sha256 (data r)"
  unfolding retrieve_ipfs_def
  by (auto split: option.splits if_splits dest: IPFSStore_retrieve_hash)

lemma EvidenceStore_retrieve_hash:
  "fst (EvidenceStore_retrieve w tr es source) = Inr r \<Longrightarrow> hash (metadata r) = sha256 (data r)"
proof (cases "s3Store es")
  case None
  assume "fst (EvidenceStore_retrieve w tr es source) = Inr r"
  with None show ?thesis
    by (simp add: EvidenceStore_retrieve_def retrieve_ipfs_hash)
next
  case (Some st)
  assume r: "fst (EvidenceStore_retrieve w tr es source) = Inr r"
  show ?thesis
  proof (cases "truthy (src_s3Key source)")
    case False
    with Some r show ?thesis
      by (simp add: EvidenceStore_retrieve_def retrieve_ipfs_hash)
  next
    case True
    obtain o1 tr1 where s: "S3Store_retrieve w tr st (or_else (src_s3Key source) []) = (o1, tr1)"
      by (cases "S3Store_retrieve w tr st (or_else (src_s3Key source) [])")
    show ?thesis
    proof (cases o1)
      case (Inr r')
      with Some True s r have "r' = r" by (simp add: EvidenceStore_retrieve_def)
      moreover from s Inr have "fst (S3Store_retrieve w tr st (or_else (src_s3Key source) [])) = Inr r'"
        by simp
      ultimately show ?thesis using S3Store_retrieve_Inr by blast
    next
      case (Inl e)
      with Some True s r show ?thesis
        by (auto simp: EvidenceStore_retrieve_def retrieve_ipfs_hash split: if_splits)
    qed
  qed
qed

lemma getMetadata_Inr:
  "fst (EvidenceStore_getMetadata w tr es source) = Inr m \<Longrightarrow>
     \<exists>r. fst (EvidenceStore_retrieve w tr es source) = Inr r
        \<and> hash m = hash (metadata r)
        \<and> verified m = (sha256 (data r) = hash (metadata r))"
  by (cases "EvidenceStore_retrieve w tr es source")
     (auto simp: EvidenceStore_getMetadata_def Let_def verifyHash_iff split: sum.splits)

lemma getMetadata_tampered:
  assumes "s3Store es = Some st" and "src_s3Key source = Some key" and "key \<noteq> []"
    and "src_ipfsHash source = None"
    and "s3_get w \<lparr>Bucket = bucket st, Key = key\<rparr> = Inr response"
    and "Body response = Some bytes"
    and "metadata_attr response ''content-hash'' = Some h" and "h \<noteq> []" and "h \<noteq> sha256 bytes"
  shows "fst (EvidenceStore_getMetadata w tr es source) = Inl (IntegrityError key)"
proof -
  have "fst (S3Store_retrieve w tr st key) = Inl (IntegrityError key)"
    unfolding S3Store_retrieve_IntegrityError using assms by (auto simp: truthy_Some)
  then have "fst (EvidenceStore_retrieve w tr es source) = Inl (IntegrityError key)"
    using assms(1-4)
    by (cases "S3Store_retrieve w tr st key")
       (auto simp: EvidenceStore_retrieve_def or_else_Some truthy_Some truthy_None)
  then show ?thesis
    by (cases "EvidenceStore_retrieve w tr es source")
       (auto simp: EvidenceStore_getMetadata_def)
qed

text \<open>
  An object whose recorded hash is the wrong hash of the test suite, read by its key with
  the object store as the only backend: \<open>getMetadata\<close> raises the hash-verification error
  of \<open>S3Store.retrieve\<close> and returns no metadata.
\<close>

theorem getMetadata_tampered_raises:
  "metadata_attr (stored_object wrongHash) ''content-hash'' = Some wrongHash
   \<and> s3_get world_tampered \<lparr>Bucket = ''test-bucket'', Key = ''evidence/abcd''\<rparr> = Inr (stored_object wrongHash)
   \<and> Body (stored_object wrongHash) = Some hello_world
   \<and> wrongHash \<noteq> sha256 hello_world
   \<and> fst (EvidenceStore_getMetadata world_tampered tr0 es_s3_only by_key)
       = Inl (IntegrityError ''evidence/abcd'')"
  using wrongHash_differs
  by (simp add: model_defs world_tampered_def world_ok_def es_s3_only_def s3_backend_def by_key_def
                stored_object_def IntegrityError_def wrongHash_def)

text \<open>
  C4, as the code has it. The \<open>verified\<close> flag of the metadata that \<open>getMetadata\<close> returns is
  true exactly when the hash recomputed from the retrieved bytes equals the hash carried in
  the retrieved metadata. Both backend reads return only metadata whose hash is the hash of
  the returned bytes, so every \<open>EvidenceMetadata\<close> that is returned has \<open>verified: true\<close>.
  On an object whose recorded hash does not match its bytes, read by its key with no
  \<open>ipfsHash\<close> given, \<open>getMetadata\<close> raises the hash-verification error.
\<close>

theorem getMetadata_verified:
  "(\<forall>m. fst (EvidenceStore_getMetadata w tr es source) = Inr m \<longrightarrow>
      (\<exists>r. fst (EvidenceStore_retrieve w tr es source) = Inr r
          \<and> hash m = hash (metadata r)
          \<and> verified m = (sha256 (data r) = hash (metadata r)))
      \<and> verified m)
   \<and> (\<forall>st key response bytes h.
        s3Store es = Some st \<and> src_s3Key source = Some key \<and> key \<noteq> []
        \<and> src_ipfsHash source = None
        \<and> s3_get w \<lparr>Bucket = bucket st, Key = key\<rparr> = Inr response
        \<and> Body response = Some bytes
        \<and> metadata_attr response ''content-hash'' = Some h \<and> h \<noteq> [] \<and> h \<noteq> sha256 bytes
        \<longrightarrow> fst (EvidenceStore_getMetadata w tr es source) = Inl (IntegrityError key))"
proof (intro conjI allI impI)
  fix m assume m: "fst (EvidenceStore_getMetadata w tr es source) = Inr m"
  from getMetadata_Inr [OF m] obtain r where
    r: "fst (EvidenceStore_retrieve w tr es source) = Inr r"
       "hash m = hash (metadata r)"
       "verified m = (sha256 (data r) = hash (metadata r))"
    by blast
  then show "\<exists>r. fst (EvidenceStore_retrieve w tr es source) = Inr r
          \<and> hash m = hash (metadata r)
          \<and> verified m = (sha256 (data r) = hash (metadata r))"
    by blast
  from r EvidenceStore_retrieve_hash [OF r(1)] show "verified m" by simp
next
  fix st key response bytes h
  assume "s3Store es = Some st \<and> src_s3Key source = Some key \<and> key \<noteq> []
        \<and> src_ipfsHash source = None
        \<and> s3_get w \<lparr>Bucket = bucket st, Key = key\<rparr> = Inr response
        \<and> Body response = Some bytes
        \<and> metadata_attr response ''content-hash'' = Some h \<and> h \<noteq> [] \<and> h \<noteq> sha256 bytes"
  then show "fst (EvidenceStore_getMetadata w tr es source) = Inl (IntegrityError key)"
    using getMetadata_tampered by blast
qed

theorem getMetadata_verified_witness:
  "fst (EvidenceStore_getMetadata world_tampered tr0 es_s3_only by_key) = Inl (IntegrityError ''evidence/abcd'')
   \<and> (\<exists>m. fst (EvidenceStore_getMetadata world_ok tr0 es_s3_only by_key) = Inr m \<and> verified m)"
proof -
  have m: "fst (EvidenceStore_getMetadata world_ok tr0 es_s3_only by_key)
      = Inr \<lparr>hash = sha256 hello_world, size_bytes = 11, timestamp = ''2023-12-31T23:59:59.000Z'',
             s3Key = Some ''evidence/abcd'', ipfsHash = None, verified = True\<rparr>"
    using length_sha256 [of hello_world]
    by (auto simp add: model_defs world_ok_def es_s3_only_def s3_backend_def by_key_def
                  stored_object_def hello_world_def)
  have h: "s3Store es_s3_only = Some s3_backend \<and> src_s3Key by_key = Some ''evidence/abcd''
        \<and> ''evidence/abcd'' \<noteq> [] \<and> src_ipfsHash by_key = None
        \<and> s3_get world_tampered \<lparr>Bucket = bucket s3_backend, Key = ''evidence/abcd''\<rparr> = Inr (stored_object wrongHash)
        \<and> Body (stored_object wrongHash) = Some hello_world
        \<and> metadata_attr (stored_object wrongHash) ''content-hash'' = Some wrongHash
        \<and> wrongHash \<noteq> [] \<and> wrongHash \<noteq> sha256 hello_world"
    using wrongHash_differs
    by (simp add: world_tampered_def es_s3_only_def by_key_def stored_object_def metadata_attr_def)
       (simp add: wrongHash_def)
  from getMetadata_verified [of world_tampered tr0 es_s3_only by_key] h
  have "fst (EvidenceStore_getMetadata world_tampered tr0 es_s3_only by_key) = Inl (IntegrityError ''evidence/abcd'')"
    by blast
  moreover from getMetadata_verified [of world_ok tr0 es_s3_only by_key] m
  have "\<exists>m. fst (EvidenceStore_getMetadata world_ok tr0 es_s3_only by_key) = Inr m \<and> verified m"
    by blast
  ultimately show ?thesis by blast
qed

section \<open>exists\<close>

text \<open>
  C8. For every selector and every configuration, \<open>exists\<close> returns a pair of booleans and
  never an error. The object-store component is true exactly when that backend is
  configured, \<open>s3Key\<close> is present and the head request succeeds; the IPFS component is true
  exactly when that backend is configured, \<open>ipfsHash\<close> is present and the first pin listed
  is the hash asked for. In every other case, a failing or rejecting probe included, the
  component is false.
\<close>

theorem exists_never_raises:
  "\<exists>r. EvidenceStore_exists w es source = Inr r
      \<and> s3_exists r = (\<exists>st key. s3Store es = Some st \<and> src_s3Key source = Some key \<and> key \<noteq> []
                          \<and> s3_head w \<lparr>Bucket = bucket st, Key = key\<rparr> = None)
      \<and> ipfs_exists r = (\<exists>st cid cs. ipfsStore es = Some st \<and> src_ipfsHash source = Some cid \<and> cid \<noteq> []
                          \<and> ipfs_pin_ls w cid = Inr (cid # cs))"
  by (cases "s3Store es"; cases "ipfsStore es"; cases "src_s3Key source"; cases "src_ipfsHash source")
     (auto simp: EvidenceStore_exists_def allSettled_def settle_def settled_or_false_def
                 s3_probe_def ipfs_probe_def S3Store_exists_def IPFSStore_exists_def
                 or_else_def truthy_def Let_def
           split: sum.splits option.splits list.splits)

theorem exists_never_raises_witness:
  "EvidenceStore_exists world_s3_down es_both by_both = Inr \<lparr>s3_exists = False, ipfs_exists = True\<rparr>"
  using exists_never_raises [of world_s3_down es_both by_both]
  by (simp add: model_defs examples s3_failed_def)

section \<open>The constructor\<close>

lemma new_s3Store_cases:
  "new_s3Store w config = Inl e \<Longrightarrow> \<exists>c. s3 config = Some c \<and> S3Store_new w c = Inl e"
  by (auto simp: new_s3Store_def split: option.splits sum.splits)

lemma new_ipfsStore_cases:
  "new_ipfsStore w config = Inl e \<Longrightarrow> \<exists>c. ipfs config = Some c \<and> IPFSStore_new w c = Inl e"
  by (auto simp: new_ipfsStore_def split: option.splits sum.splits)

lemma new_s3Store_None: "(new_s3Store w config = Inr None) = (s3 config = None)"
  by (auto simp: new_s3Store_def split: option.splits sum.splits)

lemma new_ipfsStore_None: "(new_ipfsStore w config = Inr None) = (ipfs config = None)"
  by (auto simp: new_ipfsStore_def split: option.splits sum.splits)

lemma S3Store_new_Native: "S3Store_new w c = Inl e \<Longrightarrow> \<exists>x. e = Native x"
  by (auto simp: S3Store_new_def split: option.splits)

lemma IPFSStore_new_Native: "IPFSStore_new w c = Inl e \<Longrightarrow> \<exists>x. e = Native x"
  by (auto simp: IPFSStore_new_def split: option.splits)

lemma constructor_ConfigurationError:
  "(EvidenceStore_new w config = Inl ConfigurationError) = (s3 config = None \<and> ipfs config = None)"
proof
  assume f: "EvidenceStore_new w config = Inl ConfigurationError"
  have n1: "new_s3Store w config \<noteq> Inl ConfigurationError"
    using new_s3Store_cases [of w config ConfigurationError] S3Store_new_Native
    by (fastforce simp: ConfigurationError_def)
  have n2: "new_ipfsStore w config \<noteq> Inl ConfigurationError"
    using new_ipfsStore_cases [of w config ConfigurationError] IPFSStore_new_Native
    by (fastforce simp: ConfigurationError_def)
  from f n1 n2 have "new_s3Store w config = Inr None \<and> new_ipfsStore w config = Inr None"
    by (auto simp: EvidenceStore_new_def split: sum.splits if_splits)
  then show "s3 config = None \<and> ipfs config = None"
    by (simp add: new_s3Store_None new_ipfsStore_None)
next
  assume "s3 config = None \<and> ipfs config = None"
  then show "EvidenceStore_new w config = Inl ConfigurationError"
    by (simp add: EvidenceStore_new_def new_s3Store_def new_ipfsStore_def ConfigurationError_def)
qed

lemma constructor_succeeds:
  "(\<exists>es. EvidenceStore_new w config = Inr es) =
     (\<not> (s3 config = None \<and> ipfs config = None)
      \<and> (\<forall>c. s3 config = Some c \<longrightarrow> \<not> isl (S3Store_new w c))
      \<and> (\<forall>c. ipfs config = Some c \<longrightarrow> \<not> isl (IPFSStore_new w c)))"
  by (cases "s3 config"; cases "ipfs config")
     (auto simp: EvidenceStore_new_def new_s3Store_def new_ipfsStore_def
           split: sum.splits)

lemma constructor_errors:
  "EvidenceStore_new w config = Inl e \<Longrightarrow> e \<noteq> ConfigurationError \<Longrightarrow>
     (\<exists>c. s3 config = Some c \<and> S3Store_new w c = Inl e)
     \<or> (\<exists>c. ipfs config = Some c \<and> IPFSStore_new w c = Inl e)"
  by (cases "s3 config"; cases "ipfs config")
     (auto simp: EvidenceStore_new_def new_s3Store_def new_ipfsStore_def ConfigurationError_def
           split: sum.splits if_splits)

text \<open>
  The IPFS backend is configured, with an empty endpoint: \<open>createIPFS\<close> throws, and the
  constructor fails with that error although a backend is configured.
\<close>

theorem constructor_client_error:
  "ipfs empty_endpoint_config \<noteq> None
   \<and> EvidenceStore_new world_ok empty_endpoint_config
       = Inl (Native (ClientError ''TypeError'' ''Invalid URL''))
   \<and> EvidenceStore_new world_ok empty_endpoint_config \<noteq> Inl ConfigurationError"
  by (simp add: EvidenceStore_new_def new_s3Store_def new_ipfsStore_def IPFSStore_new_def
        timeout_or_default_def empty_endpoint_config_def world_ok_def ConfigurationError_def)

text \<open>
  C9, as the code has it. Constructing the \<open>EvidenceStore\<close> fails with the configuration
  error exactly when neither the object store nor IPFS is configured. With at least one of
  them configured, construction succeeds exactly when the constructor of every configured
  backend succeeds; when one of them throws (the SDK rejects the client settings), that
  error is the error of the construction, and these are the only failures.
\<close>

theorem constructor_requires_backend:
  "(EvidenceStore_new w config = Inl ConfigurationError) = (s3 config = None \<and> ipfs config = None)
   \<and> (\<exists>es. EvidenceStore_new w config = Inr es) =
       (\<not> (s3 config = None \<and> ipfs config = None)
        \<and> (\<forall>c. s3 config = Some c \<longrightarrow> \<not> isl (S3Store_new w c))
        \<and> (\<forall>c. ipfs config = Some c \<longrightarrow> \<not> isl (IPFSStore_new w c)))
   \<and> (\<forall>e. EvidenceStore_new w config = Inl e \<and> e \<noteq> ConfigurationError \<longrightarrow>
         (\<exists>c. s3 config = Some c \<and> S3Store_new w c = Inl e)
         \<or> (\<exists>c. ipfs config = Some c \<and> IPFSStore_new w c = Inl e))"
proof -
  have a: "(EvidenceStore_new w config = Inl ConfigurationError) = (s3 config = None \<and> ipfs config = None)"
    by (rule constructor_ConfigurationError)
  have b: "(\<exists>es. EvidenceStore_new w config = Inr es) =
       (\<not> (s3 config = None \<and> ipfs config = None)
        \<and> (\<forall>c. s3 config = Some c \<longrightarrow> \<not> isl (S3Store_new w c))
        \<and> (\<forall>c. ipfs config = Some c \<longrightarrow> \<not> isl (IPFSStore_new w c)))"
    by (rule constructor_succeeds)
  have c: "\<forall>e. EvidenceStore_new w config = Inl e \<and> e \<noteq> ConfigurationError \<longrightarrow>
         (\<exists>c. s3 config = Some c \<and> S3Store_new w c = Inl e)
         \<or> (\<exists>c. ipfs config = Some c \<and> IPFSStore_new w c = Inl e)"
    using constructor_errors by blast
  from a b c show ?thesis by blast
qed

theorem constructor_requires_backend_witness:
  "EvidenceStore_new world_ok no_backend = Inl ConfigurationError
   \<and> (\<exists>es. EvidenceStore_new world_ok ipfs_config = Inr es)
   \<and> IPFSStore_new world_ok \<lparr>endpoint = [], timeout = None\<rparr>
       = Inl (Native (ClientError ''TypeError'' ''Invalid URL''))
   \<and> (\<nexists>es. EvidenceStore_new world_ok empty_endpoint_config = Inr es)"
proof -
  have n: "s3 no_backend = None \<and> ipfs no_backend = None" by (simp add: no_backend_def)
  have i: "s3 ipfs_config = None"
    "ipfs ipfs_config = Some \<lparr>endpoint = ''http://localhost:5001'', timeout = None\<rparr>"
    "\<not> isl (IPFSStore_new world_ok \<lparr>endpoint = ''http://localhost:5001'', timeout = None\<rparr>)"
    by (simp_all add: ipfs_config_def IPFSStore_new_def world_ok_def)
  have e: "ipfs empty_endpoint_config = Some \<lparr>endpoint = [], timeout = None\<rparr>"
    "IPFSStore_new world_ok \<lparr>endpoint = [], timeout = None\<rparr>
       = Inl (Native (ClientError ''TypeError'' ''Invalid URL''))"
    by (simp_all add: empty_endpoint_config_def IPFSStore_new_def world_ok_def)
  from constructor_requires_backend [of world_ok no_backend] n
  have a: "EvidenceStore_new world_ok no_backend = Inl ConfigurationError" by blast
  from constructor_requires_backend [of world_ok ipfs_config] i
  have b: "\<exists>es. EvidenceStore_new world_ok ipfs_config = Inr es" by auto
  from constructor_requires_backend [of world_ok empty_endpoint_config] e
  have c: "\<nexists>es. EvidenceStore_new world_ok empty_endpoint_config = Inr es" by auto
  from a b c e(2) show ?thesis by blast
qed

section \<open>The hash functions\<close>

text \<open>
  C6. \<open>sha256\<close> is a total function of the bytes alone: the hash that
  \<open>generateIntegrityMetadata\<close> reports is \<open>sha256\<close> of the payload whatever the clock and the
  run so far. Its value is \<open>0x\<close> followed by 64 lowercase hexadecimal digits. The UTF-8
  bytes of \<open>hello world\<close>, 11 of them, hash to
  \<open>0xb94d27b9934d3e08a52e52d7da7dabfac484efe37a5380ee9088f7ace2efcde9\<close> and the empty
  payload, of size 0, to
  \<open>0xe3b0c44298fc1c149afbf4c8996fb92427ae41e4649b934ca495991b7852b855\<close>.
\<close>

theorem sha256_digest:
  "length (sha256 b) = 66
   \<and> take 2 (sha256 b) = ''0x''
   \<and> set (drop 2 (sha256 b)) \<subseteq> set ''0123456789abcdef''
   \<and> hash (fst (generateIntegrityMetadata w tr b)) = sha256 b
   \<and> size_bytes (fst (generateIntegrityMetadata w tr b)) = length b
   \<and> sha256 hello_world = ''0xb94d27b9934d3e08a52e52d7da7dabfac484efe37a5380ee9088f7ace2efcde9''
   \<and> length hello_world = 11
   \<and> sha256 [] = ''0xe3b0c44298fc1c149afbf4c8996fb92427ae41e4649b934ca495991b7852b855''
   \<and> length ([] :: byte list) = 0"
proof -
  have "length hello_world = 11" by (simp add: hello_world_def)
  moreover have "set (drop 2 (sha256 b)) \<subseteq> set ''0123456789abcdef''" by (rule sha256_digits)
  moreover have "hash (fst (generateIntegrityMetadata w tr b)) = sha256 b"
    and "size_bytes (fst (generateIntegrityMetadata w tr b)) = length b"
    by (simp_all add: gim_eq)
  moreover note length_sha256 [of b] sha256_prefix [of b] sha256_hello_world sha256_empty
  ultimately show ?thesis by simp
qed

theorem sha256_digest_witness:
  "hash (fst (generateIntegrityMetadata world_ok tr0 hello_world))
     = ''0xb94d27b9934d3e08a52e52d7da7dabfac484efe37a5380ee9088f7ace2efcde9''
   \<and> size_bytes (fst (generateIntegrityMetadata world_ok tr0 hello_world)) = 11"
  using sha256_digest [of hello_world world_ok tr0] by simp

text \<open>
  C7. For every byte sequence \<open>b\<close>, \<open>verifyHash b (sha256 b)\<close> is true, and for every string
  other than \<open>sha256 b\<close>, well-formed or not, \<open>verifyHash\<close> is false: the comparison is of the
  whole string, and the function returns a boolean on every input.
\<close>

theorem verifyHash_exact:
  "verifyHash b (sha256 b) \<and> (\<forall>expectedHash. expectedHash \<noteq> sha256 b \<longrightarrow> \<not> verifyHash b expectedHash)"
  by (simp add: verifyHash_iff)

theorem verifyHash_exact_witness:
  "wrongHash \<noteq> sha256 hello_world \<and> \<not> verifyHash hello_world wrongHash
   \<and> ''not a hash'' \<noteq> sha256 hello_world \<and> \<not> verifyHash hello_world ''not a hash''
   \<and> verifyHash hello_world (sha256 hello_world)"
proof -
  have a: "wrongHash \<noteq> sha256 hello_world" by (rule wrongHash_differs)
  have b: "''not a hash'' \<noteq> sha256 hello_world" by (simp add: sha256_hello_world)
  from verifyHash_exact [of hello_world] a b show ?thesis by blast
qed

end
